theory Spec2Isabelle
  imports Complex_Main "HOL-Library.Char_ord" "HOL-Library.List_Lexorder" "HOL-Library.Sublist"
begin

section \<open>Data model\<close>

text \<open>
  The dashboard (\<^verbatim>\<open>dashboard.py\<close>) reads one sheet into a pandas table and derives
  columns, filters and aggregates from it. A table is modelled as the list of its rows
  in positional order. A pandas \<^verbatim>\<open>Timestamp\<close> is its integer value (nanoseconds since the
  epoch), a \<^verbatim>\<open>datetime.date\<close> is its day number.
\<close>

type_synonym timestamp = int
type_synonym date = int

text \<open>A cell of a free-form column: text, a number, or an empty cell (NaN).\<close>

datatype cell = Str string | Num real | Blank

text \<open>
  The numeric columns are float64. A float64 is a finite number, one of the two
  infinities, or NaN; NaN is also how a missing value (\<^verbatim>\<open>pd.NA\<close>) of such a column is
  written here, since every pandas operation of the program treats the two alike. The
  two zeros of float64 are one value here: the program compares them (they compare equal)
  and never divides by them.
\<close>

datatype f64 = Fin real | PInf | NInf | NaN

text \<open>
  A row of the sheet as \<^verbatim>\<open>load_data\<close> sees it after the element-wise coercions of lines
  37 and 44: \<^verbatim>\<open>pd.to_datetime(..., errors='coerce')\<close> gives a timestamp or NaT,
  \<^verbatim>\<open>pd.to_numeric(..., errors='coerce')\<close> gives a float64, NaN for what it cannot read.
\<close>

record raw_row =
  raw_Offer_Date :: "timestamp option"
  raw_Current_Fixed_CTC :: f64
  raw_Offered :: f64
  raw_Status :: cell
  raw_Source :: cell

text \<open>A row of the normalized table that \<^verbatim>\<open>load_data\<close> returns.\<close>

record row =
  Offer_Date :: timestamp
  Current_Fixed_CTC :: f64
  Offered :: f64
  Status :: cell
  Source :: cell
  Month :: string
  Year_Month :: string
  Hike_Calculated :: f64
  CTC_Bin :: string
  Source_Type :: string

section \<open>Loader: \<^verbatim>\<open>load_data\<close>\<close>

definition notna :: "f64 \<Rightarrow> bool" where
  "notna x = (x \<noteq> NaN)"

definition isna :: "f64 \<Rightarrow> bool" where
  "isna x = (x = NaN)"

text \<open>Comparison of float64 values: false as soon as one side is NaN.\<close>

fun lt :: "f64 \<Rightarrow> f64 \<Rightarrow> bool" where
  "lt NaN _ = False"
| "lt _ NaN = False"
| "lt (Fin x) (Fin y) = (x < y)"
| "lt (Fin _) PInf = True"
| "lt NInf (Fin _) = True"
| "lt NInf PInf = True"
| "lt _ _ = False"

definition le :: "f64 \<Rightarrow> f64 \<Rightarrow> bool" where
  "le a b = (lt a b \<or> (a = b \<and> a \<noteq> NaN))"

definition gt :: "f64 \<Rightarrow> f64 \<Rightarrow> bool" where
  "gt a b = lt b a"

definition ge :: "f64 \<Rightarrow> f64 \<Rightarrow> bool" where
  "ge a b = le b a"

text \<open>
  Arithmetic of float64. On two finite numbers an operation gives the exact result
  rounded to float64; the rounding \<open>rnd\<close> (to nearest, to an infinity on overflow) is a
  parameter of the model. The other cases are those of IEEE 754.
\<close>

fun fadd :: "(real \<Rightarrow> f64) \<Rightarrow> f64 \<Rightarrow> f64 \<Rightarrow> f64" where
  "fadd rnd NaN _ = NaN"
| "fadd rnd _ NaN = NaN"
| "fadd rnd (Fin x) (Fin y) = rnd (x + y)"
| "fadd rnd PInf NInf = NaN"
| "fadd rnd NInf PInf = NaN"
| "fadd rnd PInf _ = PInf"
| "fadd rnd NInf _ = NInf"
| "fadd rnd _ PInf = PInf"
| "fadd rnd _ NInf = NInf"

fun fneg :: "f64 \<Rightarrow> f64" where
  "fneg (Fin x) = Fin (- x)"
| "fneg PInf = NInf"
| "fneg NInf = PInf"
| "fneg NaN = NaN"

fun fsub :: "(real \<Rightarrow> f64) \<Rightarrow> f64 \<Rightarrow> f64 \<Rightarrow> f64" where
  "fsub rnd (Fin x) (Fin y) = rnd (x - y)"
| "fsub rnd a b = fadd rnd a (fneg b)"

text \<open>The sign of a product or quotient with an infinity.\<close>

definition signed_inf :: "bool \<Rightarrow> f64" where
  "signed_inf positive = (if positive then PInf else NInf)"

fun fmul :: "(real \<Rightarrow> f64) \<Rightarrow> f64 \<Rightarrow> f64 \<Rightarrow> f64" where
  "fmul rnd NaN _ = NaN"
| "fmul rnd _ NaN = NaN"
| "fmul rnd (Fin x) (Fin y) = rnd (x * y)"
| "fmul rnd (Fin x) PInf = (if x = 0 then NaN else signed_inf (x > 0))"
| "fmul rnd (Fin x) NInf = (if x = 0 then NaN else signed_inf (x < 0))"
| "fmul rnd PInf (Fin y) = (if y = 0 then NaN else signed_inf (y > 0))"
| "fmul rnd NInf (Fin y) = (if y = 0 then NaN else signed_inf (y < 0))"
| "fmul rnd PInf PInf = PInf"
| "fmul rnd NInf NInf = PInf"
| "fmul rnd PInf NInf = NInf"
| "fmul rnd NInf PInf = NInf"

text \<open>
  Division. The program divides by a current CTC it has tested to be positive and by a
  count of at least one; for a divisor 0 the value below is that of float64 for the
  positive zero.
\<close>

fun fdiv :: "(real \<Rightarrow> f64) \<Rightarrow> f64 \<Rightarrow> f64 \<Rightarrow> f64" where
  "fdiv rnd NaN _ = NaN"
| "fdiv rnd _ NaN = NaN"
| "fdiv rnd (Fin x) (Fin y) =
     (if y = 0 then (if x = 0 then NaN else signed_inf (x > 0)) else rnd (x / y))"
| "fdiv rnd (Fin x) _ = Fin 0"
| "fdiv rnd PInf (Fin y) = signed_inf (y \<ge> 0)"
| "fdiv rnd NInf (Fin y) = signed_inf (y < 0)"
| "fdiv rnd _ _ = NaN"

text \<open>Lines 47-51: the mask \<^verbatim>\<open>valid\<close>.\<close>

definition valid :: "f64 \<Rightarrow> f64 \<Rightarrow> bool" where
  "valid cur off = (notna cur \<and> notna off \<and> gt cur (Fin 0))"

text \<open>Lines 52-56: the column is \<^verbatim>\<open>pd.NA\<close>, overwritten on the valid rows.\<close>

definition hike_calculated :: "(real \<Rightarrow> f64) \<Rightarrow> f64 \<Rightarrow> f64 \<Rightarrow> f64" where
  "hike_calculated rnd cur off =
     (if valid cur off
      then fmul rnd (fdiv rnd (fsub rnd off cur) cur) (Fin 100)
      else NaN)"

text \<open>The label of the top bin starts with the UTF-8 bytes of the sign "greater or equal".\<close>

definition ge30L :: string where
  "ge30L = CHR 0xE2 # CHR 0x89 # CHR 0xA5 # ''30L''"

text \<open>Lines 59-69.\<close>

definition ctc_bin :: "f64 \<Rightarrow> string" where
  "ctc_bin ctc =
     (if isna ctc then ''Unknown''
      else if lt ctc (Fin 10) then ''<10L''
      else if lt ctc (Fin 20) then ''10-20L''
      else if lt ctc (Fin 30) then ''20-30L''
      else ge30L)"

text \<open>Lines 73-74.\<close>

definition internal_sources :: "cell list" where
  "internal_sources = [Str ''Employee Referral'', Str ''Internal Sourcing'', Str ''Direct'']"

definition source_type :: "cell \<Rightarrow> string" where
  "source_type x = (if x \<in> set internal_sources then ''Internal'' else ''External'')"

text \<open>
  One surviving row with its derived columns. The two calendar renderings of the offer
  date (\<^verbatim>\<open>strftime('%b %Y')\<close> and \<^verbatim>\<open>to_period('M').astype(str)\<close>) are pandas functions and are
  taken as parameters.
\<close>

definition derive ::
  "(real \<Rightarrow> f64) \<Rightarrow> (timestamp \<Rightarrow> string) \<Rightarrow> (timestamp \<Rightarrow> string) \<Rightarrow> timestamp \<Rightarrow> raw_row \<Rightarrow> row" where
  "derive rnd strftime_b_Y period_M ts r =
     \<lparr> Offer_Date = ts,
       Current_Fixed_CTC = raw_Current_Fixed_CTC r,
       Offered = raw_Offered r,
       Status = raw_Status r,
       Source = raw_Source r,
       Month = strftime_b_Y ts,
       Year_Month = period_M ts,
       Hike_Calculated = hike_calculated rnd (raw_Current_Fixed_CTC r) (raw_Offered r),
       CTC_Bin = ctc_bin (raw_Offered r),
       Source_Type = source_type (raw_Source r) \<rparr>"

text \<open>Lines 35-76: rows whose offer date is NaT are dropped, the others are derived.\<close>

definition load_data ::
  "(real \<Rightarrow> f64) \<Rightarrow> (timestamp \<Rightarrow> string) \<Rightarrow> (timestamp \<Rightarrow> string) \<Rightarrow> raw_row list \<Rightarrow> row list" where
  "load_data rnd strftime_b_Y period_M sheet =
     List.map_filter
       (\<lambda>r. case raw_Offer_Date r of
               None \<Rightarrow> None
             | Some ts \<Rightarrow> Some (derive rnd strftime_b_Y period_M ts r))
       sheet"

section \<open>Tables as objects\<close>

text \<open>
  A DataFrame is an object: the program holds references to it, and an operation either
  changes the object in place or builds a new one. The store is the list of the objects
  built so far and a reference is a position in it. Boolean indexing \<^verbatim>\<open>df[mask]\<close>,
  \<^verbatim>\<open>.copy()\<close> and \<^verbatim>\<open>.reset_index(drop=True)\<close> each build a new object; the last one only
  renumbers the row labels, which a list of rows does not carry.
\<close>

type_synonym ref = nat
type_synonym store = "row list list"

definition frame :: "store \<Rightarrow> ref \<Rightarrow> row list option" where
  "frame s r = (if r < length s then Some (s ! r) else None)"

definition new_frame :: "store \<Rightarrow> row list \<Rightarrow> store \<times> ref" where
  "new_frame s t = (s @ [t], length s)"

definition getitem_mask :: "store \<Rightarrow> ref \<Rightarrow> (row \<Rightarrow> bool) \<Rightarrow> (store \<times> ref) option" where
  "getitem_mask s r msk =
     (case frame s r of None \<Rightarrow> None | Some t \<Rightarrow> Some (new_frame s (filter msk t)))"

definition copy_frame :: "store \<Rightarrow> ref \<Rightarrow> (store \<times> ref) option" where
  "copy_frame s r = (case frame s r of None \<Rightarrow> None | Some t \<Rightarrow> Some (new_frame s t))"

definition reset_index :: "store \<Rightarrow> ref \<Rightarrow> (store \<times> ref) option" where
  "reset_index s r = (case frame s r of None \<Rightarrow> None | Some t \<Rightarrow> Some (new_frame s t))"

section \<open>Filter section (lines 94-124)\<close>

datatype filter_type = Date_Range | Select_Months

text \<open>
  What the sidebar widgets return: the radio choice, the tuple of \<^verbatim>\<open>date_input\<close> (zero, one
  or two dates) and the list of \<^verbatim>\<open>multiselect\<close>.
\<close>

record sidebar =
  filter_type :: filter_type
  date_range :: "date list"
  selected_months :: "string list"

text \<open>\<^verbatim>\<open>Timestamp.date()\<close>: the calendar day of a timestamp.\<close>

definition date_of :: "timestamp \<Rightarrow> date" where
  "date_of ts = ts div 86400000000000"






text \<open>
  Lines 98-124, from the point where \<^verbatim>\<open>df\<close> refers to a table. The widget calls are not
  part of the model: what they return is read from the \<open>sidebar\<close> record, and the defaults
  above only feed them.
\<close>

definition filter_section :: "store \<Rightarrow> ref \<Rightarrow> sidebar \<Rightarrow> (store \<times> ref) option" where
  "filter_section s df ui =
     (case
        (if filter_type ui = Date_Range then
           (if length (date_range ui) = 2 then
              (let start_date = date_range ui ! 0; end_date = date_range ui ! 1 in
               case getitem_mask s df
                      (\<lambda>r. date_of (Offer_Date r) \<ge> start_date \<and> date_of (Offer_Date r) \<le> end_date) of
                 None \<Rightarrow> None
               | Some (s1, sel) \<Rightarrow> copy_frame s1 sel)
            else copy_frame s df)
         else
           (if selected_months ui \<noteq> [] then
              (case getitem_mask s df (\<lambda>r. Month r \<in> set (selected_months ui)) of
                 None \<Rightarrow> None
               | Some (s1, sel) \<Rightarrow> copy_frame s1 sel)
            else copy_frame s df))
      of None \<Rightarrow> None
       | Some (s2, df_filtered) \<Rightarrow> reset_index s2 df_filtered)"


section \<open>KPIs (lines 134-148)\<close>

record kpis =
  total_offers :: nat
  joined :: nat
  join_rate :: f64
  avg_hike :: f64
  hike_30_plus :: nat
  internal_count :: nat
  external_count :: nat

definition dropna :: "f64 list \<Rightarrow> f64 list" where
  "dropna xs = filter notna xs"

text \<open>
  \<^verbatim>\<open>Series.mean()\<close> skips missing values, is NaN when nothing is left, and otherwise divides
  the sum of what is left by their number. The order in which pandas adds the values up is
  not in the program: the float64 sum \<open>fsum\<close> of a list is a parameter.
\<close>

definition mean :: "(real \<Rightarrow> f64) \<Rightarrow> (f64 list \<Rightarrow> f64) \<Rightarrow> f64 list \<Rightarrow> f64" where
  "mean rnd fsum xs =
     (let vs = dropna xs in
      if vs = [] then NaN else fdiv rnd (fsum vs) (Fin (real (length vs))))"

text \<open>
  Line 136 divides two Python integers, which gives the quotient rounded to float64, and
  multiplies by 100; without rows the join rate is the integer 0.
\<close>

definition compute_kpis :: "(real \<Rightarrow> f64) \<Rightarrow> (f64 list \<Rightarrow> f64) \<Rightarrow> row list \<Rightarrow> kpis" where
  "compute_kpis rnd fsum df_filtered =
     (let total = length df_filtered;
          j = length (filter (\<lambda>r. Status r = Str ''Joined'') df_filtered)
      in \<lparr> total_offers = total,
           joined = j,
           join_rate = (if total > 0 then fmul rnd (rnd (real j / real total)) (Fin 100) else Fin 0),
           avg_hike = mean rnd fsum (map Hike_Calculated df_filtered),
           hike_30_plus = length (filter (\<lambda>r. ge (Hike_Calculated r) (Fin 30)) df_filtered),
           internal_count = length (filter (\<lambda>r. Source_Type r = ''Internal'') df_filtered),
           external_count = length (filter (\<lambda>r. Source_Type r = ''External'') df_filtered) \<rparr>)"

text \<open>The UTF-8 bytes of the dash shown for an undefined mean (line 145).\<close>

definition em_dash :: string where
  "em_dash = [CHR 0xE2, CHR 0x80, CHR 0x94]"

text \<open>Line 145; the rendering \<^verbatim>\<open>f"{avg_hike:.1f}"\<close> of a float64 is a parameter.\<close>

definition avg_hike_text :: "(f64 \<Rightarrow> string) \<Rightarrow> f64 \<Rightarrow> string" where
  "avg_hike_text format_1f a = (if notna a then format_1f a @ ''%'' else em_dash)"

section \<open>Hike histogram (lines 163-176)\<close>

text \<open>
  \<^verbatim>\<open>pd.cut(x, bins, labels)\<close> with its defaults (\<^verbatim>\<open>right=True\<close>, \<^verbatim>\<open>include_lowest=False\<close>): the
  label of the interval, open on the left and closed on the right, that holds the value;
  missing when no interval does.
\<close>

fun cut :: "f64 list \<Rightarrow> string list \<Rightarrow> f64 \<Rightarrow> string option" where
  "cut (lo # hi # bins) (l # labels) v =
     (if lt lo v \<and> le v hi then Some l else cut (hi # bins) labels v)"
| "cut _ _ _ = None"

definition bins :: "f64 list" where
  "bins = [NInf, Fin 0, Fin 15, Fin 30, Fin 50, PInf]"

definition labels :: "string list" where
  "labels = [''<0%'', ''0-15%'', ''15-30%'', ''30-50%'', ''>50%'']"

text \<open>
  \<^verbatim>\<open>value_counts()\<close> of a categorical series: a count for every category, missing values
  not counted.
\<close>

definition value_counts :: "string list \<Rightarrow> string option list \<Rightarrow> (string \<rightharpoonup> nat)" where
  "value_counts categories xs l =
     (if l \<in> set categories then Some (count_list xs (Some l)) else None)"

definition reindex :: "string list \<Rightarrow> nat \<Rightarrow> (string \<rightharpoonup> nat) \<Rightarrow> (string \<times> nat) list" where
  "reindex idx fill_value m =
     map (\<lambda>l. (l, case m l of None \<Rightarrow> fill_value | Some c \<Rightarrow> c)) idx"

text \<open>\<open>None\<close> is the branch that shows "No valid hike data." instead of a chart.\<close>

definition hike_histogram :: "row list \<Rightarrow> (string \<times> nat) list option" where
  "hike_histogram df_filtered =
     (let hike_data = dropna (map Hike_Calculated df_filtered) in
      if hike_data \<noteq> [] then
        (let hike_binned = map (cut bins labels) hike_data;
             hike_counts = reindex labels 0 (value_counts labels hike_binned)
         in Some hike_counts)
      else None)"

section \<open>Full historical trend (lines 228-234)\<close>

text \<open>\<^verbatim>\<open>groupby\<close> with its default \<^verbatim>\<open>sort=True\<close>: one group per key, keys ascending.\<close>

definition groupby :: "(row \<Rightarrow> string) \<Rightarrow> row list \<Rightarrow> (string \<times> row list) list" where
  "groupby key df = map (\<lambda>k. (k, filter (\<lambda>r. key r = k) df)) (sort (remdups (map key df)))"

text \<open>
  Each entry is (Month, Total Offers, Onboarded). \<^verbatim>\<open>count\<close> counts the offer dates that
  are not missing, which is every row of a group.
\<close>

definition full_trend :: "row list \<Rightarrow> (string \<times> nat \<times> nat) list" where
  "full_trend df =
     sort_key fst
       (map (\<lambda>(k, g). (k, length g, length (filter (\<lambda>r. Status r = Str ''Joined'') g)))
            (groupby Year_Month df))"

section \<open>The page\<close>

record dashboard =
  metrics :: kpis
  avg_hike_metric :: string
  hike_chart :: "(string \<times> nat) list option"
  trend :: "(string \<times> nat \<times> nat) list"

text \<open>Lines 98-288 for a store in which \<^verbatim>\<open>df\<close> refers to a table.\<close>

definition render ::
  "(real \<Rightarrow> f64) \<Rightarrow> (f64 list \<Rightarrow> f64) \<Rightarrow> (f64 \<Rightarrow> string) \<Rightarrow> store \<Rightarrow> ref \<Rightarrow> sidebar \<Rightarrow> dashboard option" where
  "render rnd fsum format_1f s df ui =
     (case filter_section s df ui of
        None \<Rightarrow> None
      | Some (s1, df_filtered) \<Rightarrow>
          (case (frame s1 df_filtered, frame s1 df) of
             (Some tf, Some t) \<Rightarrow>
               Some \<lparr> metrics = compute_kpis rnd fsum tf,
                      avg_hike_metric = avg_hike_text format_1f (avg_hike (compute_kpis rnd fsum tf)),
                      hike_chart = hike_histogram tf,
                      trend = full_trend t \<rparr>
           | _ \<Rightarrow> None))"

section \<open>The script from the top\<close>

text \<open>
  The module is run from its first line on every interaction. The names bound at module
  level when line 98 is reached are the imports, \<^verbatim>\<open>load_data\<close>, \<^verbatim>\<open>uploaded_file\<close> and
  \<^verbatim>\<open>filter_type\<close>: no statement of the module assigns \<^verbatim>\<open>df\<close>, and \<^verbatim>\<open>load_data\<close> is defined but
  not called.
\<close>

datatype pyval = Module | Function | File "raw_row list" | Text string | Frame ref

datatype outcome = Stopped | Raised string | Rendered dashboard

definition radio_label :: "filter_type \<Rightarrow> string" where
  "radio_label t = (case t of Date_Range \<Rightarrow> ''Date Range'' | Select_Months \<Rightarrow> ''Select Months'')"

definition module_globals :: "raw_row list \<Rightarrow> sidebar \<Rightarrow> (string \<rightharpoonup> pyval)" where
  "module_globals uploaded_file ui =
     [''st'' \<mapsto> Module, ''pd'' \<mapsto> Module, ''px'' \<mapsto> Module, ''go'' \<mapsto> Module,
      ''datetime'' \<mapsto> Function, ''load_data'' \<mapsto> Function,
      ''uploaded_file'' \<mapsto> File uploaded_file,
      ''filter_type'' \<mapsto> Text (radio_label (filter_type ui))]"

text \<open>
  Lines 83-124 and on: without a file the script stops after the warning; with a file it
  goes on to the filter section, whose first statement in either branch reads \<^verbatim>\<open>df\<close>.
  No table has been built at that point, so the store is empty.
\<close>

definition script ::
  "(real \<Rightarrow> f64) \<Rightarrow> (f64 list \<Rightarrow> f64) \<Rightarrow> (f64 \<Rightarrow> string) \<Rightarrow> raw_row list option \<Rightarrow> sidebar \<Rightarrow> outcome" where
  "script rnd fsum format_1f uploaded_file ui =
     (case uploaded_file of
        None \<Rightarrow> Stopped
      | Some f \<Rightarrow>
          (case module_globals f ui ''df'' of
             None \<Rightarrow> Raised ''NameError''
           | Some (Frame df) \<Rightarrow>
               (case render rnd fsum format_1f [] df ui of
                  None \<Rightarrow> Raised ''KeyError''
                | Some page \<Rightarrow> Rendered page)
           | Some _ \<Rightarrow> Raised ''TypeError''))"

section \<open>A small sheet\<close>

text \<open>
  Four rows of a sheet, used to run the definitions: an offer of 15 January 2025 (day
  20103 of the epoch) that was accepted, one of 10 February 2025 with a current CTC of 0,
  one whose date could not be read, and one of 20 February 2025 without a source.
\<close>

definition sample_sheet :: "raw_row list" where
  "sample_sheet =
     [\<lparr> raw_Offer_Date = Some (20103 * 86400000000000 + 36000000000000),
        raw_Current_Fixed_CTC = Fin 10, raw_Offered = Fin 13,
        raw_Status = Str ''Joined'', raw_Source = Str ''Employee Referral'' \<rparr>,
      \<lparr> raw_Offer_Date = Some (20129 * 86400000000000),
        raw_Current_Fixed_CTC = Fin 0, raw_Offered = Fin 10,
        raw_Status = Str ''Declined'', raw_Source = Str ''employee referral'' \<rparr>,
      \<lparr> raw_Offer_Date = None,
        raw_Current_Fixed_CTC = Fin 12, raw_Offered = NaN,
        raw_Status = Blank, raw_Source = Str ''Direct'' \<rparr>,
      \<lparr> raw_Offer_Date = Some (20139 * 86400000000000),
        raw_Current_Fixed_CTC = Fin 20, raw_Offered = Fin 35,
        raw_Status = Str ''Joined'', raw_Source = Blank \<rparr>]"

text \<open>
  The rounding to float64 (to nearest, ties to even) on the numbers that occur when the
  definitions are run on the examples of this theory. Three of them are not binary
  fractions: 3/10, 1/3 and 2/3, whose nearest float64 are 0.3, 0.3333333333333333 and
  0.6666666666666666; the products of these three float64 with 100 are not float64
  either, and round to 30.0, 33.33333333333333 and 66.66666666666666. Every other number
  that occurs is a float64 and stays as it is.
\<close>

definition sample_round :: "real \<Rightarrow> f64" where
  "sample_round x =
     (if x = 3 / 10 then Fin (5404319552844595 / 18014398509481984)
      else if x = 5404319552844595 / 18014398509481984 * 100 then Fin 30
      else if x = 1 / 3 then Fin (6004799503160661 / 18014398509481984)
      else if x = 6004799503160661 / 18014398509481984 * 100
        then Fin (2345624805922133 / 70368744177664)
      else if x = 2 / 3 then Fin (6004799503160661 / 9007199254740992)
      else if x = 6004799503160661 / 9007199254740992 * 100
        then Fin (2345624805922133 / 35184372088832)
      else Fin x)"

text \<open>A float64 sum that adds from the left, starting at 0.\<close>

definition sample_sum :: "f64 list \<Rightarrow> f64" where
  "sample_sum xs = foldl (fadd sample_round) (Fin 0) xs"

text \<open>The rendering with one decimal, on the means that occur in the examples.\<close>

definition sample_format :: "f64 \<Rightarrow> string" where
  "sample_format x = (if x = Fin (105 / 2) then ''52.5'' else if x = Fin 75 then ''75.0'' else ''0.0'')"

text \<open>A sheet with one row, whose offered CTC was entered as the text "-inf".\<close>

definition sheet_minus_inf :: "raw_row list" where
  "sheet_minus_inf =
     [\<lparr> raw_Offer_Date = Some (20103 * 86400000000000),
        raw_Current_Fixed_CTC = Fin 10, raw_Offered = NInf,
        raw_Status = Str ''Joined'', raw_Source = Str ''Direct'' \<rparr>]"

text \<open>The two calendar renderings, on the two months of the sheet.\<close>

definition sample_strftime :: "timestamp \<Rightarrow> string" where
  "sample_strftime ts = (if date_of ts < 20120 then ''Jan 2025'' else ''Feb 2025'')"

definition sample_period :: "timestamp \<Rightarrow> string" where
  "sample_period ts = (if date_of ts < 20120 then ''2025-01'' else ''2025-02'')"

definition sample_table :: "row list" where
  "sample_table = load_data sample_round sample_strftime sample_period sample_sheet"

definition table_minus_inf :: "row list" where
  "table_minus_inf = load_data sample_round sample_strftime sample_period sheet_minus_inf"

section \<open>Facts about the loader\<close>

lemma load_data_rows:
  "r \<in> set (load_data rnd sf pm sheet) \<longleftrightarrow>
     (\<exists>raw ts. raw \<in> set sheet \<and> raw_Offer_Date raw = Some ts \<and> r = derive rnd sf pm ts raw)"
  unfolding load_data_def
  by (induction sheet) (auto simp: map_filter_simps split: option.splits)

lemma sample_round_simps:
  "sample_round 3 = Fin 3"
  "sample_round (3 / 10) = Fin (5404319552844595 / 18014398509481984)"
  "sample_round (5404319552844595 / 18014398509481984 * 100) = Fin 30"
  "sample_round 15 = Fin 15"
  "sample_round (3 / 4) = Fin (3 / 4)"
  "sample_round 75 = Fin 75"
  "sample_round 1 = Fin 1"
  "sample_round (1 / 3) = Fin (6004799503160661 / 18014398509481984)"
  "sample_round (6004799503160661 / 18014398509481984 * 100) = Fin (2345624805922133 / 70368744177664)"
  "sample_round (2 / 3) = Fin (6004799503160661 / 9007199254740992)"
  "sample_round (6004799503160661 / 9007199254740992 * 100) = Fin (2345624805922133 / 35184372088832)"
  "sample_round 30 = Fin 30"
  "sample_round (135107988821114875 / 4503599627370496) = Fin 30"
  "sample_round (150119987579016525 / 4503599627370496) = Fin (2345624805922133 / 70368744177664)"
  "sample_round (150119987579016525 / 2251799813685248) = Fin (2345624805922133 / 35184372088832)"
  "sample_round 105 = Fin 105"
  "sample_round (105 / 2) = Fin (105 / 2)"
  by (simp_all add: sample_round_def)

lemma sample_rows:
  "load_data sample_round sample_strftime sample_period sample_sheet =
     [\<lparr> Offer_Date = 20103 * 86400000000000 + 36000000000000,
        Current_Fixed_CTC = Fin 10, Offered = Fin 13,
        Status = Str ''Joined'', Source = Str ''Employee Referral'',
        Month = ''Jan 2025'', Year_Month = ''2025-01'',
        Hike_Calculated = Fin 30, CTC_Bin = ''10-20L'', Source_Type = ''Internal'' \<rparr>,
      \<lparr> Offer_Date = 20129 * 86400000000000,
        Current_Fixed_CTC = Fin 0, Offered = Fin 10,
        Status = Str ''Declined'', Source = Str ''employee referral'',
        Month = ''Feb 2025'', Year_Month = ''2025-02'',
        Hike_Calculated = NaN, CTC_Bin = ''10-20L'', Source_Type = ''External'' \<rparr>,
      \<lparr> Offer_Date = 20139 * 86400000000000,
        Current_Fixed_CTC = Fin 20, Offered = Fin 35,
        Status = Str ''Joined'', Source = Blank,
        Month = ''Feb 2025'', Year_Month = ''2025-02'',
        Hike_Calculated = Fin 75, CTC_Bin = ge30L, Source_Type = ''External'' \<rparr>]"
  by (simp add: sample_sheet_def load_data_def derive_def
      sample_strftime_def sample_period_def date_of_def hike_calculated_def valid_def
      notna_def isna_def gt_def ctc_bin_def source_type_def internal_sources_def
      sample_round_simps)

lemma minus_inf_rows:
  "table_minus_inf =
     [\<lparr> Offer_Date = 20103 * 86400000000000,
        Current_Fixed_CTC = Fin 10, Offered = NInf,
        Status = Str ''Joined'', Source = Str ''Direct'',
        Month = ''Jan 2025'', Year_Month = ''2025-01'',
        Hike_Calculated = NInf, CTC_Bin = ''<10L'', Source_Type = ''Internal'' \<rparr>]"
  by (simp add: table_minus_inf_def sheet_minus_inf_def load_data_def derive_def
      sample_strftime_def sample_period_def date_of_def hike_calculated_def valid_def
      notna_def isna_def gt_def ctc_bin_def source_type_def internal_sources_def
      signed_inf_def)

lemma gt_zero_iff: "gt c (Fin 0) \<longleftrightarrow> c = PInf \<or> (\<exists>x. c = Fin x \<and> x > 0)"
  by (cases c) (simp_all add: gt_def)

lemma hike_invalid:
  "cur = NaN \<or> off = NaN \<or> cur = NInf \<or> (\<exists>c. cur = Fin c \<and> c \<le> 0)
   \<Longrightarrow> hike_calculated rnd cur off = NaN"
  by (auto simp: hike_calculated_def valid_def notna_def gt_zero_iff)

lemma hike_valid:
  "cur \<noteq> NaN \<Longrightarrow> off \<noteq> NaN \<Longrightarrow> cur = PInf \<or> (\<exists>c. cur = Fin c \<and> c > 0)
   \<Longrightarrow> hike_calculated rnd cur off = fmul rnd (fdiv rnd (fsub rnd off cur) cur) (Fin 100)"
  by (simp add: hike_calculated_def valid_def notna_def gt_zero_iff)

lemma hike_current_inf: "hike_calculated rnd PInf off = NaN"
  by (cases off) (simp_all add: hike_calculated_def valid_def notna_def gt_def signed_inf_def)

lemma hike_finite:
  assumes "c > 0" "rnd (f - c) = Fin d" "rnd (d / c) = Fin q"
  shows "hike_calculated rnd (Fin c) (Fin f) = rnd (q * 100)"
  using assms by (simp add: hike_calculated_def valid_def notna_def gt_def)

section \<open>Facts about the filter section\<close>

lemma frame_old: "r < length s \<Longrightarrow> frame (s @ ts) r = frame s r"
  by (simp add: frame_def nth_append)

lemma frame_Some_less: "frame s r = Some t \<Longrightarrow> r < length s"
  by (simp add: frame_def split: if_splits)

lemma frame_last: "frame (s @ [t]) (length s) = Some t"
  by (simp add: frame_def)

lemma getitem_mask_Some:
  "frame s r = Some t \<Longrightarrow> getitem_mask s r m = Some (s @ [filter m t], length s)"
  by (simp add: getitem_mask_def new_frame_def)

lemma copy_frame_Some:
  "frame s r = Some t \<Longrightarrow> copy_frame s r = Some (s @ [t], length s)"
  by (simp add: copy_frame_def new_frame_def)

lemma reset_index_Some:
  "frame s r = Some t \<Longrightarrow> reset_index s r = Some (s @ [t], length s)"
  by (simp add: reset_index_def new_frame_def)

lemma select_then_copy:
  assumes "frame s df = Some t"
  shows "(case getitem_mask s df m of None \<Rightarrow> None | Some (s1, sel) \<Rightarrow> copy_frame s1 sel)
         = Some (s @ [filter m t, filter m t], Suc (length s))"
proof -
  have "copy_frame (s @ [filter m t]) (length s) = Some ((s @ [filter m t]) @ [filter m t], length (s @ [filter m t]))"
    by (rule copy_frame_Some) (rule frame_last)
  then show ?thesis
    by (simp add: getitem_mask_Some [OF assms])
qed

lemma reset_after:
  "reset_index (s @ [t]) (length s) = Some (s @ [t, t], Suc (length s))"
  using reset_index_Some [OF frame_last, of s t] by simp

lemma filter_section_date:
  assumes "frame s df = Some t" "filter_type ui = Date_Range" "date_range ui = [lo, hi]"
  shows "filter_section s df ui =
           Some (s @ replicate 3 (filter (\<lambda>r. lo \<le> date_of (Offer_Date r) \<and> date_of (Offer_Date r) \<le> hi) t),
                 length s + 2)"
  using reset_after [of "s @ [filter (\<lambda>r. lo \<le> date_of (Offer_Date r) \<and> date_of (Offer_Date r) \<le> hi) t]"]
  by (simp add: filter_section_def assms(2,3) select_then_copy [OF assms(1)] numeral_3_eq_3)

lemma filter_section_months:
  assumes "frame s df = Some t" "filter_type ui = Select_Months" "selected_months ui \<noteq> []"
  shows "filter_section s df ui =
           Some (s @ replicate 3 (filter (\<lambda>r. Month r \<in> set (selected_months ui)) t), length s + 2)"
  using reset_after [of "s @ [filter (\<lambda>r. Month r \<in> set (selected_months ui)) t]"]
  by (simp add: filter_section_def assms(2,3) select_then_copy [OF assms(1)] numeral_3_eq_3)

lemma filter_section_fallback:
  assumes "frame s df = Some t"
    and "(filter_type ui = Date_Range \<and> length (date_range ui) \<noteq> 2)
         \<or> (filter_type ui = Select_Months \<and> selected_months ui = [])"
  shows "filter_section s df ui = Some (s @ replicate 2 t, length s + 1)"
  using assms(2) reset_after [of s t]
  by (auto simp: filter_section_def copy_frame_Some [OF assms(1)] numeral_2_eq_2)

lemma filter_section_shape:
  assumes "frame s df = Some t"
  shows "\<exists>P n. filter_section s df ui =
           Some (s @ replicate (Suc (Suc n)) (filter P t), Suc (length s + n))"
proof (cases "(filter_type ui = Date_Range \<and> length (date_range ui) \<noteq> 2)
         \<or> (filter_type ui = Select_Months \<and> selected_months ui = [])")
  case True
  have "filter_section s df ui = Some (s @ replicate (Suc (Suc 0)) (filter (\<lambda>_. True) t), Suc (length s + 0))"
    using filter_section_fallback [OF assms True] by (simp add: numeral_2_eq_2)
  then show ?thesis by blast
next
  case False
  show ?thesis
  proof (cases "filter_type ui")
    case Date_Range
    with False have "length (date_range ui) = 2" by simp
    then obtain lo hi where "date_range ui = [lo, hi]"
      by (auto simp: numeral_2_eq_2 length_Suc_conv)
    from filter_section_date [OF assms Date_Range this]
    have "filter_section s df ui =
        Some (s @ replicate (Suc (Suc 1)) (filter (\<lambda>r. lo \<le> date_of (Offer_Date r) \<and> date_of (Offer_Date r) \<le> hi) t),
              Suc (length s + 1))"
      by (simp add: numeral_3_eq_3)
    then show ?thesis by blast
  next
    case Select_Months
    with False have "selected_months ui \<noteq> []" by simp
    from filter_section_months [OF assms Select_Months this]
    have "filter_section s df ui =
        Some (s @ replicate (Suc (Suc 1)) (filter (\<lambda>r. Month r \<in> set (selected_months ui)) t),
              Suc (length s + 1))"
      by (simp add: numeral_3_eq_3)
    then show ?thesis by blast
  qed
qed

lemma filter_section_rows:
  assumes "frame s df = Some t"
  shows "\<exists>n. filter_section s df ui =
           Some (s @ replicate (Suc (Suc n))
                   (if filter_type ui = Date_Range then
                      (if length (date_range ui) = 2 then
                         filter (\<lambda>r. date_range ui ! 0 \<le> date_of (Offer_Date r)
                                      \<and> date_of (Offer_Date r) \<le> date_range ui ! 1) t
                       else t)
                    else
                      (if selected_months ui \<noteq> [] then
                         filter (\<lambda>r. Month r \<in> set (selected_months ui)) t
                       else t)),
                 Suc (length s + n))"
proof (cases "(filter_type ui = Date_Range \<and> length (date_range ui) \<noteq> 2)
         \<or> (filter_type ui = Select_Months \<and> selected_months ui = [])")
  case True
  have "filter_section s df ui = Some (s @ replicate (Suc (Suc 0)) t, Suc (length s + 0))"
    using filter_section_fallback [OF assms True] by (simp add: numeral_2_eq_2)
  with True show ?thesis by (intro exI [of _ 0]) auto
next
  case False
  show ?thesis
  proof (cases "filter_type ui")
    case Date_Range
    with False have l: "length (date_range ui) = 2" by simp
    then obtain lo hi where d: "date_range ui = [lo, hi]"
      by (auto simp: numeral_2_eq_2 length_Suc_conv)
    from filter_section_date [OF assms Date_Range d]
    show ?thesis
      by (intro exI [of _ 1]) (simp add: Date_Range d numeral_3_eq_3)
  next
    case Select_Months
    with False have m: "selected_months ui \<noteq> []" by simp
    from filter_section_months [OF assms Select_Months m]
    show ?thesis
      by (intro exI [of _ 1]) (simp add: Select_Months m numeral_3_eq_3)
  qed
qed

lemma frame_replicate_last:
  "frame (s @ replicate (Suc (Suc n)) t) (Suc (length s + n)) = Some t"
  by (simp add: frame_def nth_append del: replicate.simps)











section \<open>Facts about the aggregates\<close>

lemma dropna_simps:
  "dropna [] = []"
  "dropna (NaN # xs) = dropna xs"
  "dropna (Fin v # xs) = Fin v # dropna xs"
  "dropna (PInf # xs) = PInf # dropna xs"
  "dropna (NInf # xs) = NInf # dropna xs"
  by (simp_all add: dropna_def notna_def)

lemma dropna_filter: "dropna xs = filter (\<lambda>h. h \<noteq> NaN) xs"
  by (simp add: dropna_def notna_def [abs_def])

lemma dropna_all_missing: "(\<forall>x \<in> set xs. x = NaN) \<Longrightarrow> dropna xs = []"
  by (induction xs) (auto simp: dropna_simps)

lemma em_dash_not_percent: "em_dash \<noteq> txt @ ''%''"
proof
  assume "em_dash = txt @ ''%''"
  then have "last em_dash = last (txt @ ''%'')" by simp
  then show False by (simp add: em_dash_def)
qed

lemma join_rate_expr:
  "tf \<noteq> [] \<Longrightarrow>
   join_rate (compute_kpis rnd fsum tf)
     = fmul rnd (rnd (real (joined (compute_kpis rnd fsum tf))
                      / real (total_offers (compute_kpis rnd fsum tf)))) (Fin 100)"
  by (simp add: compute_kpis_def Let_def)

lemma avg_hike_expr:
  "avg_hike (compute_kpis rnd fsum tf) = mean rnd fsum (map Hike_Calculated tf)"
  by (simp add: compute_kpis_def Let_def)

lemma mean_finite:
  assumes "xs \<noteq> []" "dropna hs = map Fin xs" "fsum (map Fin xs) = Fin (sum_list xs)"
  shows "mean rnd fsum hs = rnd (sum_list xs / real (length xs))"
  using assms by (simp add: mean_def Let_def)

lemma sample_kpis:
  "total_offers (compute_kpis sample_round sample_sum sample_table) = 3"
  "joined (compute_kpis sample_round sample_sum sample_table) = 2"
  "join_rate (compute_kpis sample_round sample_sum sample_table)
     = Fin (2345624805922133 / 35184372088832)"
  "avg_hike (compute_kpis sample_round sample_sum sample_table) = Fin (105 / 2)"
  by (simp_all add: compute_kpis_def Let_def sample_table_def sample_rows mean_def
      dropna_simps sample_sum_def sample_round_simps)

lemma cut_hike_bins:
  "cut bins labels h =
     (case h of
        Fin v \<Rightarrow> Some (if v \<le> 0 then ''<0%''
                      else if v \<le> 15 then ''0-15%''
                      else if v \<le> 30 then ''15-30%''
                      else if v \<le> 50 then ''30-50%''
                      else ''>50%'')
      | PInf \<Rightarrow> Some ''>50%''
      | NInf \<Rightarrow> None
      | NaN \<Rightarrow> None)"
  by (cases h) (simp_all add: bins_def labels_def le_def)

lemma cut_hike_iff:
  "cut bins labels h = Some ''<0%'' \<longleftrightarrow> (\<exists>v. h = Fin v \<and> v \<le> 0)"
  "cut bins labels h = Some ''0-15%'' \<longleftrightarrow> (\<exists>v. h = Fin v \<and> 0 < v \<and> v \<le> 15)"
  "cut bins labels h = Some ''15-30%'' \<longleftrightarrow> (\<exists>v. h = Fin v \<and> 15 < v \<and> v \<le> 30)"
  "cut bins labels h = Some ''30-50%'' \<longleftrightarrow> (\<exists>v. h = Fin v \<and> 30 < v \<and> v \<le> 50)"
  "cut bins labels h = Some ''>50%'' \<longleftrightarrow> h = PInf \<or> (\<exists>v. h = Fin v \<and> 50 < v)"
  by (cases h; simp add: cut_hike_bins; fail)+

lemma count_list_map_Some:
  "count_list (map f xs) (Some l) = length (filter (\<lambda>v. f v = Some l) xs)"
  by (induction xs) auto

lemma five_way_split:
  "length (filter (\<lambda>h. \<exists>v. h = Fin v \<and> v \<le> 0) hs)
   + length (filter (\<lambda>h. \<exists>v. h = Fin v \<and> 0 < v \<and> v \<le> 15) hs)
   + length (filter (\<lambda>h. \<exists>v. h = Fin v \<and> 15 < v \<and> v \<le> 30) hs)
   + length (filter (\<lambda>h. \<exists>v. h = Fin v \<and> 30 < v \<and> v \<le> 50) hs)
   + length (filter (\<lambda>h. h = PInf \<or> (\<exists>v. h = Fin v \<and> 50 < v)) hs)
   = length (filter (\<lambda>h. h \<noteq> NInf) (filter (\<lambda>h. h \<noteq> NaN) hs))"
proof (induction hs)
  case Nil
  show ?case by simp
next
  case (Cons h hs)
  then show ?case by (cases h) auto
qed

lemma hike_counts_explicit:
  "reindex labels 0 (value_counts labels (map (cut bins labels) hs)) =
     [(''<0%'', length (filter (\<lambda>h. \<exists>v. h = Fin v \<and> v \<le> 0) hs)),
      (''0-15%'', length (filter (\<lambda>h. \<exists>v. h = Fin v \<and> 0 < v \<and> v \<le> 15) hs)),
      (''15-30%'', length (filter (\<lambda>h. \<exists>v. h = Fin v \<and> 15 < v \<and> v \<le> 30) hs)),
      (''30-50%'', length (filter (\<lambda>h. \<exists>v. h = Fin v \<and> 30 < v \<and> v \<le> 50) hs)),
      (''>50%'', length (filter (\<lambda>h. h = PInf \<or> (\<exists>v. h = Fin v \<and> 50 < v)) hs))]"
proof -
  define hike_binned where "hike_binned = map (cut bins labels) hs"
  have counts:
    "count_list hike_binned (Some ''<0%'') = length (filter (\<lambda>h. \<exists>v. h = Fin v \<and> v \<le> 0) hs)"
    "count_list hike_binned (Some ''0-15%'')
       = length (filter (\<lambda>h. \<exists>v. h = Fin v \<and> 0 < v \<and> v \<le> 15) hs)"
    "count_list hike_binned (Some ''15-30%'')
       = length (filter (\<lambda>h. \<exists>v. h = Fin v \<and> 15 < v \<and> v \<le> 30) hs)"
    "count_list hike_binned (Some ''30-50%'')
       = length (filter (\<lambda>h. \<exists>v. h = Fin v \<and> 30 < v \<and> v \<le> 50) hs)"
    "count_list hike_binned (Some ''>50%'')
       = length (filter (\<lambda>h. h = PInf \<or> (\<exists>v. h = Fin v \<and> 50 < v)) hs)"
    unfolding hike_binned_def count_list_map_Some cut_hike_iff by (rule refl)+
  have "reindex labels 0 (value_counts labels hike_binned) =
     [(''<0%'', length (filter (\<lambda>h. \<exists>v. h = Fin v \<and> v \<le> 0) hs)),
      (''0-15%'', length (filter (\<lambda>h. \<exists>v. h = Fin v \<and> 0 < v \<and> v \<le> 15) hs)),
      (''15-30%'', length (filter (\<lambda>h. \<exists>v. h = Fin v \<and> 15 < v \<and> v \<le> 30) hs)),
      (''30-50%'', length (filter (\<lambda>h. \<exists>v. h = Fin v \<and> 30 < v \<and> v \<le> 50) hs)),
      (''>50%'', length (filter (\<lambda>h. h = PInf \<or> (\<exists>v. h = Fin v \<and> 50 < v)) hs))]"
    by (simp add: reindex_def value_counts_def labels_def counts)
  then show ?thesis
    by (simp only: hike_binned_def)
qed

lemma full_trend_explicit:
  "full_trend t =
     map (\<lambda>k. (k, length (filter (\<lambda>r. Year_Month r = k) t),
                length (filter (\<lambda>r. Year_Month r = k \<and> Status r = Str ''Joined'') t)))
         (sort (remdups (map Year_Month t)))"
proof -
  let ?row = "\<lambda>k. (k, length (filter (\<lambda>r. Year_Month r = k) t),
                length (filter (\<lambda>r. Status r = Str ''Joined'') (filter (\<lambda>r. Year_Month r = k) t)))"
  let ?keys = "sort (remdups (map Year_Month t))"
  have "full_trend t = sort_key fst (map ?row ?keys)"
    by (simp add: full_trend_def groupby_def comp_def)
  also have "\<dots> = map ?row ?keys"
    by (rule sort_key_id_if_sorted) (simp add: comp_def)
  finally show ?thesis
    by (simp add: conj_commute)
qed

lemma render_trend:
  assumes "frame s df = Some t"
  shows "\<exists>page. render rnd fsum format_1f s df ui = Some page \<and> trend page = full_trend t"
proof -
  from filter_section_shape [OF assms, of ui] obtain P n where
    f: "filter_section s df ui = Some (s @ replicate (Suc (Suc n)) (filter P t), Suc (length s + n))"
    by blast
  have "frame (s @ replicate (Suc (Suc n)) (filter P t)) df = Some t"
    using assms frame_Some_less [OF assms] by (simp only: frame_old)
  then show ?thesis
    by (simp add: render_def f frame_replicate_last del: replicate.simps)
qed

section \<open>The claims\<close>

subsection \<open>C1: the table the filter works on\<close>

text \<open>
  Claim C1. After the upload check passes, the filter and aggregation stages are to work on
  the normalized table that the loader produced from the uploaded file, without failing on
  an undefined reference. The script does not do this: for every uploaded file and every
  state of the sidebar it stops with a \<^verbatim>\<open>NameError\<close>, because the name \<^verbatim>\<open>df\<close> that line 99
  (date range) and line 116 (months) read is bound nowhere: the call of \<^verbatim>\<open>load_data\<close> that
  the comment of line 89 announces is missing.
\<close>

theorem script_df_unbound:
  "script rnd fsum format_1f (Some uploaded_file) ui = Raised ''NameError''"
  by (simp add: script_def module_globals_def)

subsection \<open>C2: hike percent\<close>

text \<open>
  Claim C2, as amended. For every row of the normalized table whose two CTC values are
  present and whose current CTC is positive, the hike percent is the float64 evaluation of
  (offered - current) / current * 100: the difference rounded to float64, divided by the
  current CTC and rounded, multiplied by 100 and rounded. It is the exact value of the
  formula when none of the three operations rounds, and it is missing when the current
  CTC is the float64 infinity. For every row whose current CTC is missing, zero or
  negative, or whose offered CTC is missing, the hike percent is missing.
\<close>

theorem hike_percent_rows:
  assumes "r \<in> set (load_data rnd sf pm sheet)"
  shows "(Current_Fixed_CTC r \<noteq> NaN \<and> Offered r \<noteq> NaN
            \<and> (Current_Fixed_CTC r = PInf \<or> (\<exists>c. Current_Fixed_CTC r = Fin c \<and> c > 0)) \<longrightarrow>
            Hike_Calculated r =
              fmul rnd (fdiv rnd (fsub rnd (Offered r) (Current_Fixed_CTC r)) (Current_Fixed_CTC r))
                (Fin 100))
       \<and> (\<forall>c f d q. Current_Fixed_CTC r = Fin c \<and> Offered r = Fin f \<and> c > 0
            \<and> rnd (f - c) = Fin d \<and> rnd (d / c) = Fin q \<longrightarrow>
            Hike_Calculated r = rnd (q * 100))
       \<and> (\<forall>c f. Current_Fixed_CTC r = Fin c \<and> Offered r = Fin f \<and> c > 0
            \<and> rnd (f - c) = Fin (f - c) \<and> rnd ((f - c) / c) = Fin ((f - c) / c)
            \<and> rnd ((f - c) / c * 100) = Fin ((f - c) / c * 100) \<longrightarrow>
            Hike_Calculated r = Fin ((f - c) / c * 100))
       \<and> (Current_Fixed_CTC r = PInf \<longrightarrow> Hike_Calculated r = NaN)
       \<and> (Current_Fixed_CTC r = NaN \<or> Offered r = NaN \<or> Current_Fixed_CTC r = NInf
            \<or> (\<exists>c. Current_Fixed_CTC r = Fin c \<and> c \<le> 0) \<longrightarrow>
            Hike_Calculated r = NaN)"
proof -
  from assms obtain raw ts where r: "r = derive rnd sf pm ts raw"
    by (auto simp: load_data_rows)
  have h: "Hike_Calculated r = hike_calculated rnd (Current_Fixed_CTC r) (Offered r)"
    by (simp add: r derive_def)
  show ?thesis
  proof (intro conjI impI allI)
    assume "Current_Fixed_CTC r \<noteq> NaN \<and> Offered r \<noteq> NaN
            \<and> (Current_Fixed_CTC r = PInf \<or> (\<exists>c. Current_Fixed_CTC r = Fin c \<and> c > 0))"
    then show "Hike_Calculated r =
              fmul rnd (fdiv rnd (fsub rnd (Offered r) (Current_Fixed_CTC r)) (Current_Fixed_CTC r))
                (Fin 100)"
      unfolding h by (intro hike_valid) simp_all
  next
    fix c f d q
    assume "Current_Fixed_CTC r = Fin c \<and> Offered r = Fin f \<and> c > 0
            \<and> rnd (f - c) = Fin d \<and> rnd (d / c) = Fin q"
    then show "Hike_Calculated r = rnd (q * 100)"
      unfolding h by (simp add: hike_finite)
  next
    fix c f
    assume "Current_Fixed_CTC r = Fin c \<and> Offered r = Fin f \<and> c > 0
            \<and> rnd (f - c) = Fin (f - c) \<and> rnd ((f - c) / c) = Fin ((f - c) / c)
            \<and> rnd ((f - c) / c * 100) = Fin ((f - c) / c * 100)"
    then show "Hike_Calculated r = Fin ((f - c) / c * 100)"
      unfolding h by (simp add: hike_finite [where d = "f - c" and q = "(f - c) / c"])
  next
    assume "Current_Fixed_CTC r = PInf"
    then show "Hike_Calculated r = NaN"
      unfolding h by (simp add: hike_current_inf)
  next
    assume "Current_Fixed_CTC r = NaN \<or> Offered r = NaN \<or> Current_Fixed_CTC r = NInf
            \<or> (\<exists>c. Current_Fixed_CTC r = Fin c \<and> c \<le> 0)"
    then show "Hike_Calculated r = NaN"
      unfolding h by (rule hike_invalid)
  qed
qed

theorem hike_percent_rows_witness:
  "sample_table ! 0 \<in> set (load_data sample_round sample_strftime sample_period sample_sheet)
   \<and> Current_Fixed_CTC (sample_table ! 0) = Fin 10 \<and> Offered (sample_table ! 0) = Fin 13
   \<and> sample_round (13 - 10) = Fin 3
   \<and> sample_round (3 / 10) = Fin (5404319552844595 / 18014398509481984)
   \<and> Hike_Calculated (sample_table ! 0) = Fin 30
   \<and> sample_table ! 1 \<in> set (load_data sample_round sample_strftime sample_period sample_sheet)
   \<and> Current_Fixed_CTC (sample_table ! 1) = Fin 0
   \<and> Hike_Calculated (sample_table ! 1) = NaN
   \<and> sample_table ! 2 \<in> set (load_data sample_round sample_strftime sample_period sample_sheet)
   \<and> Current_Fixed_CTC (sample_table ! 2) = Fin 20 \<and> Offered (sample_table ! 2) = Fin 35
   \<and> Hike_Calculated (sample_table ! 2) = Fin ((35 - 20) / 20 * 100)"
  using hike_percent_rows [of "sample_table ! 0" sample_round sample_strftime sample_period sample_sheet]
    hike_percent_rows [of "sample_table ! 1" sample_round sample_strftime sample_period sample_sheet]
    hike_percent_rows [of "sample_table ! 2" sample_round sample_strftime sample_period sample_sheet]
  by (simp add: sample_table_def sample_rows sample_round_simps)

text \<open>
  The claim as first stated gives the exact value of the formula to every row with both
  values present and a positive current CTC. A current CTC read from the text "inf" is
  present and positive and the hike is missing; for a current CTC of 3 and an offered CTC
  of 4 the hike is the float64 33.33333333333333, not 100/3.
\<close>

theorem hike_percent_not_exact:
  "valid PInf (Fin 10)
   \<and> hike_calculated sample_round PInf (Fin 10) = NaN
   \<and> valid (Fin 3) (Fin 4)
   \<and> hike_calculated sample_round (Fin 3) (Fin 4) = Fin (2345624805922133 / 70368744177664)
   \<and> Fin (2345624805922133 / 70368744177664) \<noteq> Fin ((4 - 3) / 3 * 100)"
  by (simp add: hike_calculated_def valid_def notna_def gt_def sample_round_simps)

subsection \<open>C3: CTC bins\<close>

text \<open>
  Claim C3. The CTC bin of an offered CTC is one of five distinct labels; it is "Unknown"
  exactly when the value is missing, and otherwise the bins are [.., 10), [10, 20),
  [20, 30) and [30, ..): lower bounds inclusive, upper bounds exclusive, the top bin open
  above.
\<close>

theorem ctc_bin_partition:
  "ctc_bin ctc \<in> {''Unknown'', ''<10L'', ''10-20L'', ''20-30L'', ge30L}
   \<and> distinct [''Unknown'', ''<10L'', ''10-20L'', ''20-30L'', ge30L]
   \<and> (ctc_bin ctc = ''Unknown'' \<longleftrightarrow> ctc = NaN)
   \<and> (ctc_bin ctc = ''<10L'' \<longleftrightarrow> ctc = NInf \<or> (\<exists>v. ctc = Fin v \<and> v < 10))
   \<and> (ctc_bin ctc = ''10-20L'' \<longleftrightarrow> (\<exists>v. ctc = Fin v \<and> 10 \<le> v \<and> v < 20))
   \<and> (ctc_bin ctc = ''20-30L'' \<longleftrightarrow> (\<exists>v. ctc = Fin v \<and> 20 \<le> v \<and> v < 30))
   \<and> (ctc_bin ctc = ge30L \<longleftrightarrow> ctc = PInf \<or> (\<exists>v. ctc = Fin v \<and> 30 \<le> v))"
  by (cases ctc) (auto simp: ctc_bin_def ge30L_def isna_def)

subsection \<open>C4: source type\<close>

text \<open>
  Claim C4. For every row of the normalized table the source type is "Internal" exactly
  when the source is one of the three strings of the allow-list, compared as they are
  written, and "External" in every other case, an empty source included; there is no
  third value.
\<close>

theorem source_type_rows:
  assumes "r \<in> set (load_data rnd sf pm sheet)"
  shows "(Source_Type r = ''Internal'' \<longleftrightarrow>
            Source r \<in> {Str ''Employee Referral'', Str ''Internal Sourcing'', Str ''Direct''})
       \<and> (Source_Type r = ''External'' \<longleftrightarrow>
            Source r \<notin> {Str ''Employee Referral'', Str ''Internal Sourcing'', Str ''Direct''})
       \<and> Source_Type r \<in> {''Internal'', ''External''}"
proof -
  from assms obtain raw ts where r: "r = derive rnd sf pm ts raw"
    by (auto simp: load_data_rows)
  show ?thesis
    unfolding r derive_def
    by (simp add: source_type_def internal_sources_def)
qed

theorem source_type_rows_witness:
  "sample_table ! 0 \<in> set (load_data sample_round sample_strftime sample_period sample_sheet)
   \<and> Source_Type (sample_table ! 0) = ''Internal''
   \<and> sample_table ! 1 \<in> set (load_data sample_round sample_strftime sample_period sample_sheet)
   \<and> Source_Type (sample_table ! 1) = ''External''
   \<and> sample_table ! 2 \<in> set (load_data sample_round sample_strftime sample_period sample_sheet)
   \<and> Source_Type (sample_table ! 2) = ''External''"
  using source_type_rows [of "sample_table ! 0" sample_round sample_strftime sample_period sample_sheet]
    source_type_rows [of "sample_table ! 1" sample_round sample_strftime sample_period sample_sheet]
    source_type_rows [of "sample_table ! 2" sample_round sample_strftime sample_period sample_sheet]
  by (simp add: sample_table_def sample_rows)

subsection \<open>C5: filters that keep every row\<close>



subsection \<open>C6: join rate and mean hike\<close>

text \<open>
  Claim C6, as amended. The join rate of an empty filtered set is 0. The join rate of a
  non-empty set is the float64 evaluation of joined / total * 100, the quotient of the two
  counts rounded to float64, multiplied by 100 and rounded, with total the number of rows
  and joined the number of rows whose status is "Joined". When every hike of the filtered
  set is missing (the empty set included), the mean hike is undefined and the metric shows
  the dash, which is not the rendering of a number; otherwise the mean hike is the float64
  sum of the hikes that are present divided by their number, which is the arithmetic mean
  rounded to float64 when the hikes are finite and their sum is exact.
\<close>

theorem kpi_join_rate_and_mean:
  "join_rate (compute_kpis rnd fsum []) = Fin 0
   \<and> total_offers (compute_kpis rnd fsum tf) = length tf
   \<and> joined (compute_kpis rnd fsum tf) = length (filter (\<lambda>r. Status r = Str ''Joined'') tf)
   \<and> (tf \<noteq> [] \<longrightarrow>
        join_rate (compute_kpis rnd fsum tf)
          = fmul rnd (rnd (real (joined (compute_kpis rnd fsum tf))
                           / real (total_offers (compute_kpis rnd fsum tf)))) (Fin 100))
   \<and> (\<forall>q. tf \<noteq> []
        \<and> rnd (real (joined (compute_kpis rnd fsum tf))
                / real (total_offers (compute_kpis rnd fsum tf))) = Fin q \<longrightarrow>
        join_rate (compute_kpis rnd fsum tf) = rnd (q * 100))
   \<and> ((\<forall>r \<in> set tf. Hike_Calculated r = NaN) \<longrightarrow>
        avg_hike (compute_kpis rnd fsum tf) = NaN
        \<and> avg_hike_text format_1f (avg_hike (compute_kpis rnd fsum tf)) = em_dash)
   \<and> (filter (\<lambda>h. h \<noteq> NaN) (map Hike_Calculated tf) \<noteq> [] \<longrightarrow>
        avg_hike (compute_kpis rnd fsum tf)
          = fdiv rnd (fsum (filter (\<lambda>h. h \<noteq> NaN) (map Hike_Calculated tf)))
              (Fin (real (length (filter (\<lambda>h. h \<noteq> NaN) (map Hike_Calculated tf))))))
   \<and> (\<forall>xs. xs \<noteq> [] \<and> filter (\<lambda>h. h \<noteq> NaN) (map Hike_Calculated tf) = map Fin xs
        \<and> fsum (map Fin xs) = Fin (sum_list xs) \<longrightarrow>
        avg_hike (compute_kpis rnd fsum tf) = rnd (sum_list xs / real (length xs)))
   \<and> em_dash \<noteq> format_1f (Fin 0) @ ''%''"
proof (intro conjI impI allI)
  assume "tf \<noteq> []"
  then show "join_rate (compute_kpis rnd fsum tf)
          = fmul rnd (rnd (real (joined (compute_kpis rnd fsum tf))
                           / real (total_offers (compute_kpis rnd fsum tf)))) (Fin 100)"
    by (rule join_rate_expr)
next
  fix q
  assume "tf \<noteq> []
        \<and> rnd (real (joined (compute_kpis rnd fsum tf))
                / real (total_offers (compute_kpis rnd fsum tf))) = Fin q"
  then show "join_rate (compute_kpis rnd fsum tf) = rnd (q * 100)"
    using join_rate_expr [of tf rnd fsum] by simp
next
  assume "\<forall>r \<in> set tf. Hike_Calculated r = NaN"
  then have "dropna (map Hike_Calculated tf) = []"
    by (intro dropna_all_missing) auto
  then show "avg_hike (compute_kpis rnd fsum tf) = NaN"
    and "avg_hike_text format_1f (avg_hike (compute_kpis rnd fsum tf)) = em_dash"
    by (simp_all add: avg_hike_expr mean_def avg_hike_text_def notna_def)
next
  assume "filter (\<lambda>h. h \<noteq> NaN) (map Hike_Calculated tf) \<noteq> []"
  then show "avg_hike (compute_kpis rnd fsum tf)
          = fdiv rnd (fsum (filter (\<lambda>h. h \<noteq> NaN) (map Hike_Calculated tf)))
              (Fin (real (length (filter (\<lambda>h. h \<noteq> NaN) (map Hike_Calculated tf)))))"
    by (simp add: avg_hike_expr mean_def Let_def dropna_filter)
next
  fix xs :: "real list"
  assume "xs \<noteq> [] \<and> filter (\<lambda>h. h \<noteq> NaN) (map Hike_Calculated tf) = map Fin xs
        \<and> fsum (map Fin xs) = Fin (sum_list xs)"
  then show "avg_hike (compute_kpis rnd fsum tf) = rnd (sum_list xs / real (length xs))"
    unfolding avg_hike_expr by (intro mean_finite) (simp_all add: dropna_filter)
qed (simp_all add: compute_kpis_def Let_def em_dash_not_percent)

theorem kpi_join_rate_and_mean_witness:
  "sample_table \<noteq> []
   \<and> joined (compute_kpis sample_round sample_sum sample_table) = 2
   \<and> total_offers (compute_kpis sample_round sample_sum sample_table) = 3
   \<and> sample_round (2 / 3) = Fin (6004799503160661 / 9007199254740992)
   \<and> join_rate (compute_kpis sample_round sample_sum sample_table)
       = Fin (2345624805922133 / 35184372088832)
   \<and> filter (\<lambda>h. h \<noteq> NaN) (map Hike_Calculated sample_table) = map Fin [30, 75]
   \<and> sample_sum (map Fin [30, 75]) = Fin (sum_list [30, 75])
   \<and> avg_hike (compute_kpis sample_round sample_sum sample_table) = Fin ((30 + 75) / 2)
   \<and> avg_hike_text sample_format (avg_hike (compute_kpis sample_round sample_sum sample_table))
       = ''52.5%''
   \<and> Hike_Calculated (sample_table ! 1) = NaN
   \<and> avg_hike (compute_kpis sample_round sample_sum [sample_table ! 1]) = NaN
   \<and> avg_hike_text sample_format (avg_hike (compute_kpis sample_round sample_sum [sample_table ! 1]))
       = em_dash"
  using kpi_join_rate_and_mean [of sample_round sample_sum sample_table sample_format]
    kpi_join_rate_and_mean [of sample_round sample_sum "[sample_table ! 1]" sample_format]
  by (auto simp: sample_kpis sample_round_simps sample_sum_def sample_table_def sample_rows
      avg_hike_text_def notna_def sample_format_def)

text \<open>
  The claim as first stated gives the join rate the value joined / total * 100. With two
  rows out of three joined it is the float64 66.66666666666666, not 200/3.
\<close>

theorem join_rate_not_exact:
  "total_offers (compute_kpis sample_round sample_sum sample_table) = 3
   \<and> joined (compute_kpis sample_round sample_sum sample_table) = 2
   \<and> join_rate (compute_kpis sample_round sample_sum sample_table)
       = Fin (2345624805922133 / 35184372088832)
   \<and> Fin (2345624805922133 / 35184372088832) \<noteq> Fin (2 / 3 * 100)"
  by (simp add: sample_kpis)

subsection \<open>C7: hike histogram\<close>

text \<open>
  Claim C7, as amended. When the filtered set has no hike that is present, no histogram is
  built (the page shows a notice instead). When it has one, the histogram lists the five
  labels  <0%, 0-15%, 15-30%, 30-50%, >50%  in this order, each with the number of hikes in
  its interval (.., 0], (0, 15], (15, 30], (30, 50], (50, ..], zero for an interval that
  holds none. The lower edge of the first interval is open, so the five counts add up to
  the number of hikes that are present and are not the negative infinity: each of these
  is counted in exactly one bin.
\<close>

theorem hike_histogram_bins:
  "hike_histogram tf =
     (let hs = filter (\<lambda>h. h \<noteq> NaN) (map Hike_Calculated tf) in
      if hs = [] then None
      else Some [(''<0%'', length (filter (\<lambda>h. \<exists>v. h = Fin v \<and> v \<le> 0) hs)),
                 (''0-15%'', length (filter (\<lambda>h. \<exists>v. h = Fin v \<and> 0 < v \<and> v \<le> 15) hs)),
                 (''15-30%'', length (filter (\<lambda>h. \<exists>v. h = Fin v \<and> 15 < v \<and> v \<le> 30) hs)),
                 (''30-50%'', length (filter (\<lambda>h. \<exists>v. h = Fin v \<and> 30 < v \<and> v \<le> 50) hs)),
                 (''>50%'', length (filter (\<lambda>h. h = PInf \<or> (\<exists>v. h = Fin v \<and> 50 < v)) hs))])
   \<and> (let hs = filter (\<lambda>h. h \<noteq> NaN) (map Hike_Calculated tf) in
        length (filter (\<lambda>h. \<exists>v. h = Fin v \<and> v \<le> 0) hs)
      + length (filter (\<lambda>h. \<exists>v. h = Fin v \<and> 0 < v \<and> v \<le> 15) hs)
      + length (filter (\<lambda>h. \<exists>v. h = Fin v \<and> 15 < v \<and> v \<le> 30) hs)
      + length (filter (\<lambda>h. \<exists>v. h = Fin v \<and> 30 < v \<and> v \<le> 50) hs)
      + length (filter (\<lambda>h. h = PInf \<or> (\<exists>v. h = Fin v \<and> 50 < v)) hs)
      = length (filter (\<lambda>h. h \<noteq> NInf) hs))"
proof -
  define hs where "hs = filter (\<lambda>h. h \<noteq> NaN) (map Hike_Calculated tf)"
  have d: "dropna (map Hike_Calculated tf) = hs"
    by (simp add: hs_def dropna_filter)
  have i: "filter (\<lambda>h. h \<noteq> NaN) hs = hs"
    by (simp add: hs_def)
  show ?thesis
    unfolding Let_def hs_def [symmetric]
    using five_way_split [of hs]
    by (simp add: hike_histogram_def Let_def d i hike_counts_explicit)
qed

theorem hike_histogram_bins_witness:
  "hike_histogram sample_table =
     Some [(''<0%'', 0), (''0-15%'', 0), (''15-30%'', 1), (''30-50%'', 0), (''>50%'', 1)]"
  using hike_histogram_bins [of sample_table]
  by (simp add: sample_table_def sample_rows)

text \<open>
  The claim as first stated asks for the five labels whatever the filtered set is, and
  counts every hike that is present in one bin. A set with a single row whose hike is
  missing has no histogram; a set with a single row whose offered CTC was read from the
  text "-inf" has a hike that is present, and five counts of zero.
\<close>

theorem hike_histogram_not_always:
  "Hike_Calculated (sample_table ! 1) = NaN
   \<and> hike_histogram [sample_table ! 1] = None
   \<and> map_option (map fst) (hike_histogram [sample_table ! 1]) \<noteq> Some labels
   \<and> map Hike_Calculated table_minus_inf = [NInf]
   \<and> hike_histogram table_minus_inf =
       Some [(''<0%'', 0), (''0-15%'', 0), (''15-30%'', 0), (''30-50%'', 0), (''>50%'', 0)]"
  using hike_counts_explicit [of "[NInf]"]
  by (simp add: sample_table_def sample_rows minus_inf_rows hike_histogram_def dropna_simps)

subsection \<open>C8: full historical trend\<close>

text \<open>
  Claim C8. When \<^verbatim>\<open>df\<close> refers to a table, the trend shown on the page is computed from
  that table whatever the sidebar holds. It has one entry for every year-month key of the
  table, with the number of rows of that month and the number of those whose status is
  "Joined", and the entries are in strictly ascending order of the key.
\<close>

theorem full_trend_unfiltered:
  assumes "frame s df = Some t"
  shows "(\<exists>page. render rnd fsum format_1f s df ui = Some page \<and> trend page = full_trend t)
       \<and> full_trend t =
           map (\<lambda>k. (k, length (filter (\<lambda>r. Year_Month r = k) t),
                      length (filter (\<lambda>r. Year_Month r = k \<and> Status r = Str ''Joined'') t)))
               (sorted_list_of_set (Year_Month ` set t))
       \<and> sorted_wrt (<) (map fst (full_trend t))
       \<and> set (map fst (full_trend t)) = Year_Month ` set t"
proof -
  have keys: "sort (remdups (map Year_Month t)) = sorted_list_of_set (Year_Month ` set t)"
    by (simp flip: sorted_list_of_set_sort_remdups)
  have fst: "map fst (full_trend t) = sorted_list_of_set (Year_Month ` set t)"
    by (simp add: full_trend_explicit keys comp_def)
  show ?thesis
    using render_trend [OF assms, of rnd fsum format_1f ui]
    by (simp add: fst) (simp add: full_trend_explicit keys)
qed

theorem full_trend_unfiltered_witness:
  "frame [sample_table] 0 = Some sample_table
   \<and> full_trend sample_table = [(''2025-01'', 1, 1), (''2025-02'', 2, 1)]
   \<and> (\<exists>page. render sample_round sample_sum sample_format [sample_table] 0
                \<lparr> filter_type = Select_Months, date_range = [],
                  selected_months = [''Feb 2025''] \<rparr> = Some page
             \<and> total_offers (metrics page) = 2
             \<and> trend page = [(''2025-01'', 1, 1), (''2025-02'', 2, 1)])"
proof -
  have f: "frame [sample_table] 0 = Some sample_table"
    by (simp add: frame_def)
  have t: "full_trend sample_table = [(''2025-01'', 1, 1), (''2025-02'', 2, 1)]"
    by (simp add: full_trend_explicit sample_table_def sample_rows)
  let ?ui = "\<lparr> filter_type = Select_Months, date_range = [], selected_months = [''Feb 2025''] \<rparr>"
  have r: "filter_section [sample_table] 0 ?ui =
      Some ([sample_table] @ replicate 3 (filter (\<lambda>r. Month r \<in> set (selected_months ?ui)) sample_table),
            length [sample_table] + 2)"
    by (rule filter_section_months [OF f]) simp_all
  have k: "total_offers (compute_kpis sample_round sample_sum
             (filter (\<lambda>r. Month r \<in> set (selected_months ?ui)) sample_table)) = 2"
    by (simp add: compute_kpis_def Let_def sample_table_def sample_rows)
  show ?thesis
    using full_trend_unfiltered [OF f, of sample_round sample_sum sample_format ?ui] k
    by (auto simp: f t render_def r frame_def nth_append numeral_3_eq_3)
qed

subsection \<open>C9: the base table is left alone\<close>

text \<open>
  Claim C9. The filter section leaves the table \<^verbatim>\<open>df\<close> refers to as it was: after it has
  run, in either mode and with any input, \<^verbatim>\<open>df\<close> still refers to the same rows in the same
  order and every object that existed before is unchanged. \<^verbatim>\<open>df_filtered\<close> refers to an
  object that did not exist before, so not to the one \<^verbatim>\<open>df\<close> refers to, and this object
  holds the rows of the table that the sidebar selects: those whose day lies between the
  two dates of the date input, those whose month is among the selected months, or all of
  them when the date input does not hold two dates or no month is selected.
\<close>

theorem filter_leaves_base_table:
  assumes "frame s df = Some t"
  shows "\<exists>s1 df_filtered.
           filter_section s df ui = Some (s1, df_filtered)
         \<and> frame s1 df = Some t
         \<and> df_filtered \<noteq> df
         \<and> frame s df_filtered = None
         \<and> take (length s) s1 = s
         \<and> frame s1 df_filtered =
             Some (if filter_type ui = Date_Range then
                     (if length (date_range ui) = 2 then
                        filter (\<lambda>r. date_range ui ! 0 \<le> date_of (Offer_Date r)
                                     \<and> date_of (Offer_Date r) \<le> date_range ui ! 1) t
                      else t)
                   else
                     (if selected_months ui \<noteq> [] then
                        filter (\<lambda>r. Month r \<in> set (selected_months ui)) t
                      else t))"
proof -
  define kept where "kept =
    (if filter_type ui = Date_Range then
       (if length (date_range ui) = 2 then
          filter (\<lambda>r. date_range ui ! 0 \<le> date_of (Offer_Date r)
                       \<and> date_of (Offer_Date r) \<le> date_range ui ! 1) t
        else t)
     else
       (if selected_months ui \<noteq> [] then
          filter (\<lambda>r. Month r \<in> set (selected_months ui)) t
        else t))"
  from filter_section_rows [OF assms, of ui] obtain n where
    f: "filter_section s df ui = Some (s @ replicate (Suc (Suc n)) kept, Suc (length s + n))"
    unfolding kept_def by blast
  have lt: "df < length s"
    using assms by (rule frame_Some_less)
  have "frame (s @ replicate (Suc (Suc n)) kept) df = Some t"
    using assms lt by (simp only: frame_old)
  moreover have "Suc (length s + n) \<noteq> df"
    using lt by simp
  moreover have "frame s (Suc (length s + n)) = None"
    by (simp add: frame_def)
  moreover have "frame (s @ replicate (Suc (Suc n)) kept) (Suc (length s + n)) = Some kept"
    by (rule frame_replicate_last)
  ultimately show ?thesis
    unfolding kept_def [symmetric] using f by simp
qed

theorem filter_leaves_base_table_witness:
  "frame [sample_table] 0 = Some sample_table
   \<and> (\<exists>s1 df_filtered.
         filter_section [sample_table] 0
           \<lparr> filter_type = Select_Months, date_range = [], selected_months = [''Feb 2025''] \<rparr>
           = Some (s1, df_filtered)
       \<and> frame s1 0 = Some sample_table
       \<and> df_filtered \<noteq> 0
       \<and> frame [sample_table] df_filtered = None
       \<and> take (length [sample_table]) s1 = [sample_table]
       \<and> frame s1 df_filtered = Some [sample_table ! 1, sample_table ! 2])"
proof -
  have f: "frame [sample_table] 0 = Some sample_table"
    by (simp add: frame_def)
  have k: "filter (\<lambda>r. Month r = ''Feb 2025'') sample_table = [sample_table ! 1, sample_table ! 2]"
    by (simp add: sample_table_def sample_rows)
  show ?thesis
    using filter_leaves_base_table [OF f, of
        "\<lparr> filter_type = Select_Months, date_range = [], selected_months = [''Feb 2025''] \<rparr>"]
    by (simp add: f k)
qed

subsection \<open>C10: histogram edges and the KPI at 30\<close>

text \<open>
  Claim C10. The intervals of the hike histogram exclude their lower edge and include
  their upper edge: a hike of exactly 0 is counted under <0%, 15 under 0-15%, 30 under
  15-30% and 50 under 30-50%. The KPI "Hike >=30%" counts the rows whose hike is present
  and at least 30. So a row whose hike is exactly 30 is counted by the KPI and falls in
  the bin 15-30%, not in 30-50%.
\<close>

theorem hike_boundaries:
  "cut bins labels (Fin 0) = Some ''<0%''
   \<and> cut bins labels (Fin 15) = Some ''0-15%''
   \<and> cut bins labels (Fin 30) = Some ''15-30%''
   \<and> cut bins labels (Fin 50) = Some ''30-50%''
   \<and> (cut bins labels h = Some ''<0%'' \<longleftrightarrow> (\<exists>v. h = Fin v \<and> v \<le> 0))
   \<and> (cut bins labels h = Some ''0-15%'' \<longleftrightarrow> (\<exists>v. h = Fin v \<and> 0 < v \<and> v \<le> 15))
   \<and> (cut bins labels h = Some ''15-30%'' \<longleftrightarrow> (\<exists>v. h = Fin v \<and> 15 < v \<and> v \<le> 30))
   \<and> (cut bins labels h = Some ''30-50%'' \<longleftrightarrow> (\<exists>v. h = Fin v \<and> 30 < v \<and> v \<le> 50))
   \<and> (cut bins labels h = Some ''>50%'' \<longleftrightarrow> h = PInf \<or> (\<exists>v. h = Fin v \<and> 50 < v))
   \<and> hike_30_plus (compute_kpis rnd fsum tf)
       = length (filter (\<lambda>r. Hike_Calculated r = PInf
                              \<or> (\<exists>v. Hike_Calculated r = Fin v \<and> v \<ge> 30)) tf)
   \<and> (Hike_Calculated r = Fin 30 \<longrightarrow>
        hike_30_plus (compute_kpis rnd fsum [r]) = 1
        \<and> hike_histogram [r] =
            Some [(''<0%'', 0), (''0-15%'', 0), (''15-30%'', 1), (''30-50%'', 0), (''>50%'', 0)])"
proof -
  have g: "ge x (Fin 30) \<longleftrightarrow> x = PInf \<or> (\<exists>v. x = Fin v \<and> v \<ge> 30)" for x
    by (cases x) (auto simp: ge_def le_def)
  have k: "hike_30_plus (compute_kpis rnd fsum tf)
       = length (filter (\<lambda>r. Hike_Calculated r = PInf
                              \<or> (\<exists>v. Hike_Calculated r = Fin v \<and> v \<ge> 30)) tf)" for tf
    by (simp add: compute_kpis_def Let_def g)
  have h: "Hike_Calculated r = Fin 30 \<Longrightarrow> hike_histogram [r] =
            Some [(''<0%'', 0), (''0-15%'', 0), (''15-30%'', 1), (''30-50%'', 0), (''>50%'', 0)]"
    using hike_counts_explicit [of "[Fin 30]"]
    by (simp add: hike_histogram_def Let_def dropna_simps)
  show ?thesis
    by (simp add: cut_hike_iff k h)
qed

theorem hike_boundaries_witness:
  "Hike_Calculated (sample_table ! 0) = Fin 30
   \<and> hike_30_plus (compute_kpis sample_round sample_sum [sample_table ! 0]) = 1
   \<and> hike_histogram [sample_table ! 0] =
       Some [(''<0%'', 0), (''0-15%'', 0), (''15-30%'', 1), (''30-50%'', 0), (''>50%'', 0)]"
  using hike_boundaries [of NaN sample_round sample_sum "[]" "sample_table ! 0"]
  by (simp add: sample_table_def sample_rows)

end
